theory Spec2Isabelle
  imports Complex_Main
begin

section \<open>k-means clustering (kmeans.py): data model\<close>

text \<open>
  The module drives a relational store through SQL text. A table is modelled as the list
  of its rows. A point is a row \<open>(pid, position)\<close>; a row of a working table
  (a \<open>TempTable\<close>, the output points table) is \<open>(pid, position, cid)\<close>; a row
  of the centroids table is \<open>(cid, position)\<close>. The column \<open>cid\<close> is nullable
  in SQL, so it is an \<open>int option\<close>. Positions (the SVEC type) are a type parameter;
  Python and SQL floats are modelled as reals.
\<close>

type_synonym 'p point = "int \<times> 'p"
type_synonym 'p assigned = "int \<times> 'p \<times> int option"
type_synonym 'p centroid = "int option \<times> 'p"

datatype plpy_error =
    BadK | MissingSchemaPrefix | NoSuchTable | NoPidColumn | NoPositionColumn
  | EmptyTable | TooFewPoints | BadGoodness | NoOutputSchema

datatype error = PlpyError plpy_error | TypeError | ValueError | IndexError | ZeroDivisionError

datatype exit_reason = Stabilized real | BelowLimit real | MaxIterations nat

text \<open>The block "Adjustable Variables" at the head of \<open>kmeans_run\<close>.\<close>

record config =
  sampling :: int
  sampling_size :: int
  max_sample_size :: int
  change_pct_limit :: real
  max_iterations :: nat

definition default_config :: config where
  "default_config =
     \<lparr> sampling = 1, sampling_size = 100, max_sample_size = 10000000,
       change_pct_limit = 0.001, max_iterations = 20 \<rparr>"

section \<open>The statements of one iteration\<close>

definition pos_of :: "'p assigned \<Rightarrow> 'p" where
  "pos_of r = fst (snd r)"

definition cid_of :: "'p assigned \<Rightarrow> int option" where
  "cid_of r = snd (snd r)"

text \<open>
  \<open>ArrayOfCentroids\<close>: \<open>generate_series(1, k)\<close> left-outer-joined with the
  centroids table on \<open>x = cid\<close>, ordered by \<open>x\<close>, cut at \<open>k\<close> rows. A number
  without a centroid gives one row whose position is NULL.
\<close>

definition centroid_slot :: "'p centroid list \<Rightarrow> int \<Rightarrow> 'p option list" where
  "centroid_slot cs x =
     (case filter (\<lambda>c. fst c = Some x) cs of
        [] \<Rightarrow> [None]
      | rs \<Rightarrow> map (\<lambda>c. Some (snd c)) rs)"

definition array_of_centroids :: "int \<Rightarrow> 'p centroid list \<Rightarrow> 'p option list" where
  "array_of_centroids k cs = take (nat k) (concat (map (centroid_slot cs) [1..k]))"

text \<open>
  The assignment statement: every row of the previous working table, with
  \<open>madlib._kmeans_closestID(position, arr)\<close> as its new \<open>cid\<close>. The stored
  procedure is not part of the module; it is the parameter \<open>cl\<close>.
\<close>

definition assign_closest ::
  "('p \<Rightarrow> 'p option list \<Rightarrow> int option) \<Rightarrow> 'p option list \<Rightarrow> 'p assigned list \<Rightarrow> 'p assigned list" where
  "assign_closest cl arr t = map (\<lambda>r. (fst r, pos_of r, cl (pos_of r) arr)) t"

text \<open>\<open>GROUP BY cid\<close>: the distinct values of the column (NULLs form one group).\<close>

definition group_cids :: "'p assigned list \<Rightarrow> int option list" where
  "group_cids t = remdups (map cid_of t)"

definition group_rows :: "'p assigned list \<Rightarrow> int option \<Rightarrow> 'p assigned list" where
  "group_rows t c = filter (\<lambda>r. cid_of r = c) t"

text \<open>
  The refresh of the centroids table: it is truncated, then filled with one row per group
  of the working table, holding \<open>madlib._kmeans_meanPosition\<close> of the group's
  positions. The aggregate is the parameter \<open>mp\<close>.
\<close>

definition refresh_centroids :: "('p list \<Rightarrow> 'p) \<Rightarrow> 'p assigned list \<Rightarrow> 'p centroid list" where
  "refresh_centroids mp t = map (\<lambda>c. (c, mp (map pos_of (group_rows t c)))) (group_cids t)"

text \<open>
  The change query: the per-\<open>cid\<close> counts of the new and of the old working table,
  inner-joined on \<open>cid\<close> (a NULL never joins), and \<open>SUM(ABS(e1 - e2))\<close> over the
  joined rows, which is NULL (Python \<open>None\<close>) when no row joins.
\<close>

definition cid_counts :: "'p assigned list \<Rightarrow> (int \<times> int option) list" where
  "cid_counts t = map (\<lambda>c. (int (length (group_rows t c)), c)) (group_cids t)"

definition joined_counts :: "'p assigned list \<Rightarrow> 'p assigned list \<Rightarrow> (int \<times> int) list" where
  "joined_counts t1 t2 =
     concat (map (\<lambda>a. map (\<lambda>b. (fst a, fst b))
                        (filter (\<lambda>b. snd a \<noteq> None \<and> snd a = snd b) (cid_counts t2)))
                 (cid_counts t1))"

definition change_sum :: "'p assigned list \<Rightarrow> 'p assigned list \<Rightarrow> int option" where
  "change_sum t1 t2 =
     (case joined_counts t1 t2 of
        [] \<Rightarrow> None
      | js \<Rightarrow> Some (sum_list (map (\<lambda>j. \<bar>fst j - snd j\<bar>) js)))"

text \<open>
  \<open>if (i>1): change_pct.append( rv[0]['sum'] / p_count)\<close>. Dividing \<open>None\<close>
  raises TypeError; the divisor is the row count of the input table.
\<close>

definition track_change :: "nat \<Rightarrow> int \<Rightarrow> int option \<Rightarrow> real list \<Rightarrow> error + real list" where
  "track_change i p_count s cp =
     (if i > 1 then
        (case s of
           None \<Rightarrow> Inl TypeError
         | Some v \<Rightarrow>
             if p_count = 0 then Inl ZeroDivisionError
             else Inr (cp @ [real_of_int v / real_of_int p_count]))
      else Inr cp)"

text \<open>
  The exit conditions. The list is read at \<open>i-4\<close> (only when \<open>i > 3\<close>) and at
  \<open>i-1\<close>; a read past the end raises IndexError. \<open>None\<close> means the loop goes on.
\<close>

definition exit_conditions :: "config \<Rightarrow> nat \<Rightarrow> real list \<Rightarrow> error + exit_reason option" where
  "exit_conditions cfg i cp =
     (if i = 0 \<or> length cp \<le> i - 1 then Inl IndexError
      else if i > 3 \<and> cp ! (i - 4) - cp ! (i - 1) < 0 then
        Inr (Some (Stabilized ((cp ! (i - 4) + cp ! (i - 3) + cp ! (i - 2) + cp ! (i - 1)) / 4)))
      else if cp ! (i - 1) < change_pct_limit cfg then
        Inr (Some (BelowLimit (change_pct_limit cfg)))
      else if i = max_iterations cfg then
        Inr (Some (MaxIterations (max_iterations cfg)))
      else Inr None)"

section \<open>The main loop\<close>

record 'p loop_state =
  iter :: nat
  change_pct :: "real list"
  temp_table :: "'p assigned list"
  out_centroids :: "'p centroid list"
  centroid_array :: "'p option list"

text \<open>
  One pass through the body of \<open>while (done == 0)\<close>. An error leaves the state as it
  was when the exception was raised.
\<close>

definition iteration ::
  "config \<Rightarrow> ('p \<Rightarrow> 'p option list \<Rightarrow> int option) \<Rightarrow> ('p list \<Rightarrow> 'p) \<Rightarrow> int \<Rightarrow> int \<Rightarrow>
   'p loop_state \<Rightarrow> (error \<times> 'p loop_state) + ('p loop_state \<times> exit_reason option)" where
  "iteration cfg cl mp p_count k s =
     (let i = iter s + 1;
          arr = array_of_centroids k (out_centroids s);
          t = assign_closest cl arr (temp_table s);
          cs = refresh_centroids mp t;
          s1 = s\<lparr> iter := i, temp_table := t, out_centroids := cs, centroid_array := arr \<rparr>
      in case track_change i p_count (change_sum t (temp_table s)) (change_pct s) of
           Inl e \<Rightarrow> Inl (e, s1)
         | Inr cp \<Rightarrow>
             (let s2 = s1\<lparr> change_pct := cp \<rparr>
              in case exit_conditions cfg i cp of
                   Inl e \<Rightarrow> Inl (e, s2)
                 | Inr r \<Rightarrow> Inr (s2, r)))"

partial_function (option) main_loop ::
  "config \<Rightarrow> ('p \<Rightarrow> 'p option list \<Rightarrow> int option) \<Rightarrow> ('p list \<Rightarrow> 'p) \<Rightarrow> int \<Rightarrow> int \<Rightarrow>
   'p loop_state \<Rightarrow> ((error \<times> 'p loop_state) + ('p loop_state \<times> exit_reason)) option" where
  "main_loop cfg cl mp p_count k s =
     (case iteration cfg cl mp p_count k s of
        Inl e \<Rightarrow> Some (Inl e)
      | Inr (s', Some r) \<Rightarrow> Some (Inr (s', r))
      | Inr (s', None) \<Rightarrow> main_loop cfg cl mp p_count k s')"

section \<open>Randomness\<close>

text \<open>
  \<open>random()\<close> is modelled by a stream \<open>rnd\<close> of reals read at a counter. A query
  that orders a table by \<open>random()\<close> draws one number per row and sorts the rows by it
  (stably, so rows with equal numbers keep the table's order).
\<close>

definition random_keys :: "(nat \<Rightarrow> real) \<Rightarrow> nat \<Rightarrow> 'a list \<Rightarrow> (real \<times> 'a) list" where
  "random_keys rnd c rows = zip (map rnd [c..<c + length rows]) rows"

definition order_by_random :: "(nat \<Rightarrow> real) \<Rightarrow> nat \<Rightarrow> 'a list \<Rightarrow> 'a list" where
  "order_by_random rnd c rows = map snd (sort_key fst (random_keys rnd c rows))"

definition order_by_random_desc :: "(nat \<Rightarrow> real) \<Rightarrow> nat \<Rightarrow> 'a list \<Rightarrow> 'a list" where
  "order_by_random_desc rnd c rows = map snd (sort_key (\<lambda>x. - fst x) (random_keys rnd c rows))"

section \<open>Seeding: \<open>__kmeans_init\<close>\<close>

text \<open>
  \<open>floor( - log( 1 - pow( 0.999, 1/float(k))) * k)\<close>: division by zero for
  \<open>k = 0\<close>, a math domain error when the logarithm's argument is not positive.
\<close>

definition numCentroids :: "int \<Rightarrow> error + int" where
  "numCentroids k =
     (if k = 0 then Inl ZeroDivisionError
      else if 1 - 0.999 powr (1 / real_of_int k) \<le> 0 then Inl ValueError
      else Inr \<lfloor>- ln (1 - 0.999 powr (1 / real_of_int k)) * real_of_int k\<rfloor>)"

text \<open>
  The query Q1 for the next centroid: \<open>numCentroids\<close> random points, cross-joined with
  the current centroids and grouped by \<open>pid\<close>; each group's smallest
  \<open>l2norm(p.position - c.position)\<close> (the parameter \<open>l2norm\<close>, taking both positions) is multiplied by
  \<open>random()^0.2\<close>, and the group with the largest product is kept.
\<close>

definition group_distance ::
  "('p \<Rightarrow> 'p \<Rightarrow> real) \<Rightarrow> 'p point list \<Rightarrow> 'p centroid list \<Rightarrow> int \<Rightarrow> real" where
  "group_distance l2norm cands cs pid =
     min_list (concat (map (\<lambda>p. map (\<lambda>c. l2norm (snd p) (snd c)) cs)
                           (filter (\<lambda>p. fst p = pid) cands)))"

definition furthest_candidate ::
  "('p \<Rightarrow> 'p \<Rightarrow> real) \<Rightarrow> (nat \<Rightarrow> real) \<Rightarrow> nat \<Rightarrow> 'p point list \<Rightarrow> 'p centroid list \<Rightarrow>
   (int \<times> real) list" where
  "furthest_candidate l2norm rnd c cands cs =
     (if cs = [] then []
      else
        (let pids = remdups (map fst cands);
             groups = map (\<lambda>g. (snd g, group_distance l2norm cands cs (snd g) * (rnd (c + fst g) powr (1 / 5))))
                          (zip [0..<length pids] pids)
         in take 1 (sort_key (\<lambda>g. - snd g) groups)))"

text \<open>
  One pass of \<open>while (i < k)\<close>: the rows of the input table whose \<open>pid\<close> Q1
  returned are inserted as centroid \<open>i\<close>. The result is the centroids table and the
  counter of the random stream.
\<close>

definition seed_next ::
  "('p \<Rightarrow> 'p \<Rightarrow> real) \<Rightarrow> (nat \<Rightarrow> real) \<Rightarrow> int \<Rightarrow> 'p point list \<Rightarrow> int \<Rightarrow>
   'p centroid list \<times> nat \<Rightarrow> 'p centroid list \<times> nat" where
  "seed_next l2norm rnd nc input i st =
     (let cs = fst st; c = snd st;
          cands = take (nat nc) (order_by_random rnd c input);
          c1 = c + length input;
          pc = furthest_candidate l2norm rnd c1 cands cs;
          c2 = (if cs = [] then c1 else c1 + length (remdups (map fst cands)));
          new = concat (map (\<lambda>g. map (\<lambda>pt. (Some i, snd pt)) (filter (\<lambda>pt. fst pt = fst g) input)) pc)
      in (cs @ new, c2))"

function seed_loop ::
  "('p \<Rightarrow> 'p \<Rightarrow> real) \<Rightarrow> (nat \<Rightarrow> real) \<Rightarrow> int \<Rightarrow> 'p point list \<Rightarrow> int \<Rightarrow> int \<Rightarrow>
   'p centroid list \<times> nat \<Rightarrow> int \<times> 'p centroid list \<times> nat" where
  "seed_loop l2norm rnd nc input k i st =
     (if i < k then seed_loop l2norm rnd nc input k (i + 1) (seed_next l2norm rnd nc input (i + 1) st)
      else (i, st))"
  by pat_completeness auto
termination
  by (relation "measure (\<lambda>(l2norm, rnd, nc, input, k, i, st). nat (k - i))") auto

declare seed_loop.simps [simp del]

text \<open>
  The database holds the two output tables under their names; the temporary tables of a
  run are local to it.
\<close>

datatype 'p table = Centroids "'p centroid list" | Points "'p assigned list"

type_synonym 'p db = "string \<Rightarrow> 'p table option"

text \<open>
  \<open>__kmeans_init\<close> called from \<open>kmeans_run\<close>: both output tables are dropped and
  created empty, centroid 1 is a random row of the input, the others come from the loop,
  and the loop index is returned.
\<close>

definition kmeans_init ::
  "('p \<Rightarrow> 'p \<Rightarrow> real) \<Rightarrow> (nat \<Rightarrow> real) \<Rightarrow> string \<Rightarrow> string \<Rightarrow> 'p db \<Rightarrow> 'p point list \<Rightarrow> int \<Rightarrow>
   (error \<times> 'p db) + (int \<times> 'p centroid list \<times> nat \<times> 'p db)" where
  "kmeans_init l2norm rnd output_points output_centroids db input k =
     (case numCentroids k of
        Inl e \<Rightarrow> Inl (e, db)
      | Inr nc \<Rightarrow>
          (let db1 = db(output_points \<mapsto> Points []);
               db2 = db1(output_centroids \<mapsto> Centroids []);
               first = map (\<lambda>r. (Some 1, snd r)) (take 1 (order_by_random_desc rnd 0 input));
               r = seed_loop l2norm rnd nc input k 1 (first, length input)
           in Inr (fst r, fst (snd r), snd (snd r), db2(output_centroids \<mapsto> Centroids (fst (snd r))))))"

section \<open>The entry point: \<open>kmeans_run\<close>\<close>

definition quote_ident :: "string \<Rightarrow> string" where
  "quote_ident val =
     ''\"'' @ concat (map (\<lambda>c. if c = CHR ''\"'' then ''\"\"'' else [c]) val) @ ''\"''"

fun split_dot :: "string \<Rightarrow> string list" where
  "split_dot [] = [[]]"
| "split_dot (c # cs) =
     (if c = CHR ''.'' then [] # split_dot cs
      else (case split_dot cs of [] \<Rightarrow> [[c]] | w # ws \<Rightarrow> (c # w) # ws))"

text \<open>
  What the run reads from the database: the catalogue of columns
  (\<open>information_schema.columns\<close>, by schema and table name), the rows of a relation
  (by its quoted name), the schema names of \<open>pg_namespace\<close> and the backend's pid.
\<close>

record 'p env =
  column_names :: "string \<Rightarrow> string \<Rightarrow> string list"
  relation_rows :: "string \<Rightarrow> 'p point list"
  namespaces :: "string list"
  backend_pid :: string

record 'p validated =
  v_input :: "'p point list"
  v_p_count :: int
  v_run_id :: string
  v_output_schema :: string

text \<open>
  The block "Validate all parameters", in the order of the source. \<open>plpy.error\<close>
  raises; unpacking a split with more than two parts raises ValueError.
\<close>

definition validate ::
  "'p env \<Rightarrow> string \<Rightarrow> int \<Rightarrow> int \<Rightarrow> string \<Rightarrow> string \<Rightarrow> error + 'p validated" where
  "validate env input_table k goodness run_id output_schema =
     (if \<not> k > 0 then Inl (PlpyError BadK)
      else if CHR ''.'' \<notin> set input_table then Inl (PlpyError MissingSchemaPrefix)
      else
        (case split_dot input_table of
           [input_schemaname, input_tablename] \<Rightarrow>
             (let cols = column_names env input_schemaname input_tablename
              in if length cols = 0 then Inl (PlpyError NoSuchTable)
                 else if length (filter (\<lambda>c. c = ''pid'') cols) = 0 then Inl (PlpyError NoPidColumn)
                 else if length (filter (\<lambda>c. c = ''position'') cols) = 0
                   then Inl (PlpyError NoPositionColumn)
                 else
                   (let rows = relation_rows env
                                 (quote_ident input_schemaname @ ''.'' @ quote_ident input_tablename);
                        p_count = int (length rows)
                    in if p_count = 0 then Inl (PlpyError EmptyTable)
                       else if p_count \<le> k then Inl (PlpyError TooFewPoints)
                       else if goodness \<noteq> 1 \<and> goodness \<noteq> 0 then Inl (PlpyError BadGoodness)
                       else
                         (let rid = (if run_id = [] then backend_pid env else run_id)
                          in if output_schema = [] then
                               Inr \<lparr> v_input = rows, v_p_count = p_count, v_run_id = rid,
                                     v_output_schema = ''public'' \<rparr>
                             else if length (filter (\<lambda>n. n = output_schema) (namespaces env)) > 0 then
                               Inr \<lparr> v_input = rows, v_p_count = p_count, v_run_id = rid,
                                     v_output_schema = output_schema \<rparr>
                             else Inl (PlpyError NoOutputSchema))))
         | _ \<Rightarrow> Inl ValueError))"

text \<open>
  The goodness of fit query: the output points joined with the centroids on \<open>cid\<close>,
  \<open>sum(l2norm(p.position - c.position)) / count(*)\<close>. Over no rows the sum is NULL and
  so is the quotient.
\<close>

datatype gfit = NotComputed | Computed "real option"

definition fit_rows :: "('p \<Rightarrow> 'p \<Rightarrow> real) \<Rightarrow> 'p assigned list \<Rightarrow> 'p centroid list \<Rightarrow> real list" where
  "fit_rows l2norm pts cs =
     concat (map (\<lambda>p. map (\<lambda>c. l2norm (pos_of p) (snd c))
                        (filter (\<lambda>c. cid_of p \<noteq> None \<and> cid_of p = fst c) cs)) pts)"

definition goodness_of_fit ::
  "('p \<Rightarrow> 'p \<Rightarrow> real) \<Rightarrow> 'p assigned list \<Rightarrow> 'p centroid list \<Rightarrow> real option" where
  "goodness_of_fit l2norm pts cs =
     (case fit_rows l2norm pts cs of
        [] \<Rightarrow> None
      | ds \<Rightarrow> Some (sum_list ds / real (length ds)))"

record 'p summary =
  c_count_final :: nat
  fit :: gfit
  exit_info :: exit_reason
  iterations :: nat
  expanded :: bool
  final_centroids :: "'p centroid list"
  final_points :: "'p assigned list"
  final_change_pct :: "real list"
  final_array :: "'p option list"
  working_table :: "'p assigned list"

text \<open>The working table \<open>TempTable0\<close>: a random sample or the whole input, all with cid 0.\<close>

definition working_set :: "config \<Rightarrow> (nat \<Rightarrow> real) \<Rightarrow> nat \<Rightarrow> int \<Rightarrow> 'p point list \<Rightarrow> bool \<times> 'p assigned list" where
  "working_set cfg rnd c nc input =
     (let sample_size = min (sampling_size cfg * nc) (max_sample_size cfg);
          expand = (sampling cfg = 1 \<and> sample_size < int (length input));
          rows = (if expand then take (nat sample_size) (order_by_random rnd c input) else input)
      in (expand, map (\<lambda>p. (fst p, snd p, Some 0)) rows))"

text \<open>
  After the loop: the output points are, when the run worked on a sample, every input row
  with \<open>_kmeans_closestID\<close> against the table \<open>ArrayOfCentroids\<close>, and the last
  working table otherwise.
\<close>

definition output_rows ::
  "('p \<Rightarrow> 'p option list \<Rightarrow> int option) \<Rightarrow> bool \<Rightarrow> 'p point list \<Rightarrow> 'p loop_state \<Rightarrow> 'p assigned list" where
  "output_rows cl expand input s =
     (if expand then map (\<lambda>p. (fst p, snd p, cl (snd p) (centroid_array s))) input
      else temp_table s)"

definition finish ::
  "('p \<Rightarrow> 'p \<Rightarrow> real) \<Rightarrow> ('p \<Rightarrow> 'p option list \<Rightarrow> int option) \<Rightarrow> int \<Rightarrow> bool \<Rightarrow> 'p point list \<Rightarrow>
   'p loop_state \<Rightarrow> exit_reason \<Rightarrow> 'p summary" where
  "finish l2norm cl goodness expand input s r =
     (let pts = output_rows cl expand input s
      in \<lparr> c_count_final = length (out_centroids s),
           fit = (if goodness = 1 then Computed (goodness_of_fit l2norm pts (out_centroids s))
                  else NotComputed),
           exit_info = r,
           iterations = iter s,
           expanded = expand,
           final_centroids = out_centroids s,
           final_points = pts,
           final_change_pct = change_pct s,
           final_array = centroid_array s,
           working_table = temp_table s \<rparr>)"

definition store :: "string \<Rightarrow> string \<Rightarrow> 'p assigned list \<Rightarrow> 'p centroid list \<Rightarrow> 'p db \<Rightarrow> 'p db" where
  "store output_points output_centroids pts cs db =
     (db(output_points \<mapsto> Points pts))(output_centroids \<mapsto> Centroids cs)"

text \<open>
  The run. A failure carries the database as the exception left it; \<open>None\<close> stands
  for a loop that does not return. The format of the message "Requested ... centroids"
  is applied to one value where it needs two, which raises TypeError.
\<close>

definition kmeans_run ::
  "config \<Rightarrow> 'p env \<Rightarrow> (nat \<Rightarrow> real) \<Rightarrow> ('p \<Rightarrow> 'p \<Rightarrow> real) \<Rightarrow> ('p \<Rightarrow> 'p option list \<Rightarrow> int option) \<Rightarrow>
   ('p list \<Rightarrow> 'p) \<Rightarrow> 'p db \<Rightarrow> string \<Rightarrow> int \<Rightarrow> int \<Rightarrow> string \<Rightarrow> string \<Rightarrow>
   ((error \<times> 'p db) + ('p summary \<times> 'p db)) option" where
  "kmeans_run cfg env rnd l2norm cl mp db input_table k goodness run_id output_schema =
     (case validate env input_table k goodness run_id output_schema of
        Inl e \<Rightarrow> Some (Inl (e, db))
      | Inr v \<Rightarrow>
          (let output_points = quote_ident (v_output_schema v) @ ''.''
                                 @ quote_ident (''kmeans_out_points_'' @ v_run_id v);
               output_centroids = quote_ident (v_output_schema v) @ ''.''
                                 @ quote_ident (''kmeans_out_centroids_'' @ v_run_id v)
           in case kmeans_init l2norm rnd output_points output_centroids db (v_input v) k of
                Inl e \<Rightarrow> Some (Inl e)
              | Inr (c_count, cs, c, db1) \<Rightarrow>
                  if c_count \<noteq> k then Some (Inl (TypeError, db1))
                  else
                    (case numCentroids k of
                       Inl e \<Rightarrow> Some (Inl (e, db1))
                     | Inr nc \<Rightarrow>
                         (let ws = working_set cfg rnd c nc (v_input v);
                              s0 = \<lparr> iter = 0, change_pct = [100], temp_table = snd ws,
                                     out_centroids = cs, centroid_array = [] \<rparr>
                          in case main_loop cfg cl mp (v_p_count v) k s0 of
                               None \<Rightarrow> None
                             | Some (Inl (e, s)) \<Rightarrow>
                                 Some (Inl (e, store output_points output_centroids [] (out_centroids s) db1))
                             | Some (Inr (s, r)) \<Rightarrow>
                                 (let res = finish l2norm cl goodness (fst ws) (v_input v) s r
                                  in Some (Inr (res, store output_points output_centroids
                                                       (final_points res) (final_centroids res) db1)))))))"

section \<open>The stored procedures, in one dimension\<close>

text \<open>
  Modelled from the spec: \<open>madlib._kmeans_closestID\<close> is a stored procedure created
  by the installation script and is not in the module. The spec: "assign the point to the
  centroid of minimum distance (ties broken by lowest centroid id)". The array is scanned
  from slot 1; a NULL slot holds no centroid and is passed over; a later slot wins only
  with a strictly smaller distance; an array without a centroid gives NULL.
\<close>

fun closestID_scan ::
  "('p \<Rightarrow> 'p \<Rightarrow> real) \<Rightarrow> 'p \<Rightarrow> 'p option list \<Rightarrow> int \<Rightarrow> (int \<times> real) option \<Rightarrow> (int \<times> real) option" where
  "closestID_scan l2norm p [] j best = best"
| "closestID_scan l2norm p (None # cs) j best = closestID_scan l2norm p cs (j + 1) best"
| "closestID_scan l2norm p (Some c # cs) j best =
     closestID_scan l2norm p cs (j + 1)
       (case best of
          None \<Rightarrow> Some (j, l2norm p c)
        | Some b \<Rightarrow> if l2norm p c < snd b then Some (j, l2norm p c) else Some b)"

definition closestID :: "('p \<Rightarrow> 'p \<Rightarrow> real) \<Rightarrow> 'p \<Rightarrow> 'p option list \<Rightarrow> int option" where
  "closestID l2norm p arr = map_option fst (closestID_scan l2norm p arr 1 None)"

text \<open>
  Modelled from the spec: the distance primitive, "a metric (L2 norm of the difference)",
  for vectors of one coordinate, where it is the absolute difference.
\<close>

definition l2norm_1d :: "real \<Rightarrow> real \<Rightarrow> real" where
  "l2norm_1d a b = \<bar>a - b\<bar>"

text \<open>
  Modelled from the spec: \<open>madlib._kmeans_meanPosition\<close>, "the element-wise mean",
  for vectors of one coordinate. (The run calls it on the rows of a group, which is never
  empty.)
\<close>

definition meanPosition_1d :: "real list \<Rightarrow> real" where
  "meanPosition_1d ps = sum_list ps / real (length ps)"

section \<open>Results of the loop\<close>

definition iterations_done :: "(error \<times> 'p loop_state) + ('p loop_state \<times> exit_reason) \<Rightarrow> nat" where
  "iterations_done r = (case r of Inl e \<Rightarrow> iter (snd e) | Inr x \<Rightarrow> iter (fst x))"

text \<open>The state in which \<open>kmeans_run\<close> enters the loop.\<close>

definition initial_state :: "'p assigned list \<Rightarrow> 'p centroid list \<Rightarrow> 'p loop_state" where
  "initial_state t0 cs =
     \<lparr> iter = 0, change_pct = [100], temp_table = t0, out_centroids = cs, centroid_array = [] \<rparr>"

section \<open>Example states\<close>


text \<open>
  A database whose relation \<open>madlib.kmeans_input\<close> has the columns \<open>pid\<close> and
  \<open>position\<close> and the given rows.
\<close>

definition table_env :: "'p point list \<Rightarrow> 'p env" where
  "table_env rows =
     \<lparr> column_names = (\<lambda>s t. if s = ''madlib'' \<and> t = ''kmeans_input''
                              then [''pid'', ''position''] else []),
       relation_rows = (\<lambda>n. if n = quote_ident ''madlib'' @ ''.'' @ quote_ident ''kmeans_input''
                              then rows else []),
       namespaces = [''madlib'', ''public''],
       backend_pid = ''4242'' \<rparr>"

section \<open>Counting by centroid\<close>

text \<open>
  The number of rows of a working table with a given \<open>cid\<close>, and the \<open>cid\<close>s the
  join of the change query keeps: those of the new table that are not NULL and occur in
  the old one.
\<close>

definition count_cid :: "'p assigned list \<Rightarrow> int option \<Rightarrow> int" where
  "count_cid t c = int (length (group_rows t c))"

definition common_cids :: "'p assigned list \<Rightarrow> 'p assigned list \<Rightarrow> int option list" where
  "common_cids t1 t2 = filter (\<lambda>c. c \<noteq> None \<and> c \<in> set (group_cids t2)) (group_cids t1)"

section \<open>Example inputs\<close>

text \<open>
  Points of the line. In each input the first row is at the position that becomes centroid
  1 and the next rows hold the positions that become the other centroids; the rows that
  fill the candidate pool of the seeding repeat the position of the first row.
\<close>

definition swing_input :: "real point list" where
  "swing_input =
     [(1, 0), (2, 1), (3, 0), (4, 0), (5, 0), (6, 0), (7, 0), (8, 0), (9, 0), (10, 0),
      (11, 0), (12, 0), (13, 0), (14, 0), (15, 0)]
     @ map (\<lambda>j. (j, 2)) [16..30] @ [(31, 100)]"

definition lost_input :: "real point list" where
  "lost_input =
     [(1, 39), (2, 81), (3, 40)] @ map (\<lambda>j. (j, 39)) [4..24]
     @ [(25, 60), (26, 61), (27, 61), (28, 61), (29, 61)]"

(*THEOREMS*)

section \<open>The loop: one iteration\<close>


lemma iteration_iter_err: "iteration cfg cl mp p k s = Inl (e, s') \<Longrightarrow> iter s' = iter s + 1"
  by (auto simp: iteration_def Let_def split: sum.splits)

lemma iteration_iter_ok: "iteration cfg cl mp p k s = Inr (s', r) \<Longrightarrow> iter s' = iter s + 1"
  by (auto simp: iteration_def Let_def split: sum.splits)

lemma exit_conditions_None: "exit_conditions cfg i cp = Inr None \<Longrightarrow> i \<noteq> max_iterations cfg"
  by (auto simp: exit_conditions_def split: if_splits)

lemma iteration_continue:
  "iteration cfg cl mp p k s = Inr (s', None) \<Longrightarrow> iter s' \<noteq> max_iterations cfg"
  by (auto simp: iteration_def Let_def split: sum.splits dest: exit_conditions_None)



lemma iteration_first:
  assumes "iter s = 0" "change_pct s = [100]" "change_pct_limit cfg \<le> 100"
    "max_iterations cfg \<noteq> 1"
  shows "\<exists>s1. iteration cfg cl mp p k s = Inr (s1, None) \<and> iter s1 = 1"
  using assms by (simp add: iteration_def Let_def track_change_def exit_conditions_def)

section \<open>The loop halts\<close>

lemma main_loop_halts:
  "iter s < max_iterations cfg \<Longrightarrow>
   \<exists>r. main_loop cfg cl mp p k s = Some r \<and> iter s < iterations_done r
       \<and> iterations_done r \<le> max_iterations cfg"
proof (induction "max_iterations cfg - iter s" arbitrary: s)
  case 0
  then show ?case by simp
next
  case (Suc n)
  show ?case
  proof (cases "iteration cfg cl mp p k s")
    case (Inl e)
    obtain er s' where e: "e = (er, s')" by (cases e)
    from Inl e have "iter s' = iter s + 1" by (simp add: iteration_iter_err)
    with Inl e Suc.prems show ?thesis
      by (subst main_loop.simps) (simp add: iterations_done_def)
  next
    case (Inr x)
    obtain s' r where x: "x = (s', r)" by (cases x)
    from Inr x have it: "iter s' = iter s + 1" by (simp add: iteration_iter_ok)
    show ?thesis
    proof (cases r)
      case None
      with Inr x have ne: "iter s' \<noteq> max_iterations cfg" by (simp add: iteration_continue)
      with it Suc.prems have lt: "iter s' < max_iterations cfg" by simp
      from it Suc.hyps(2) have "n = max_iterations cfg - iter s'" by simp
      from Suc.hyps(1)[OF this lt] obtain r' where
        "main_loop cfg cl mp p k s' = Some r'" "iter s' < iterations_done r'"
        "iterations_done r' \<le> max_iterations cfg" by blast
      with Inr x None it show ?thesis
        by (subst main_loop.simps) simp
    next
      case (Some a)
      with Inr x it Suc.prems show ?thesis
        by (subst main_loop.simps) (simp add: iterations_done_def)
    qed
  qed
qed

text \<open>
  C6. The refinement loop, entered as \<open>kmeans_run\<close> enters it (no iteration done yet),
  returns for every working table, centroid table, assignment procedure and mean, and it has
  then gone through at most \<open>max_iterations\<close> iterations; with the value of the source,
  20. (An exception raised by an iteration ends the loop as well.)
\<close>

theorem loop_halts_within_max_iterations:
  assumes "0 < max_iterations cfg"
  shows "\<exists>r. main_loop cfg cl mp p_count k (initial_state t0 cs) = Some r
             \<and> iterations_done r \<le> max_iterations cfg"
  using main_loop_halts [of "initial_state t0 cs" cfg cl mp p_count k] assms
  by (auto simp: initial_state_def)

theorem loop_halts_within_max_iterations_witness:
  "0 < max_iterations default_config
   \<and> (\<exists>r. main_loop default_config (closestID l2norm_1d) meanPosition_1d 3 2
             (initial_state [(1, 0, Some 0), (2, 10, Some 0), (3, 11, Some 0)]
                            [(Some 1, 0), (Some 2, 11)]) = Some r
          \<and> iterations_done r \<le> 20)"
proof -
  have h: "0 < max_iterations default_config" by (simp add: default_config_def)
  from loop_halts_within_max_iterations [OF h] show ?thesis
    using h by (simp add: default_config_def)
qed

section \<open>The first iteration never ends the loop\<close>

text \<open>
  C10. The tracking list starts as \<open>[100.0]\<close>. In the first iteration nothing is
  appended, the stabilisation test needs \<open>i > 3\<close>, the entry read by the threshold
  test is the 100.0 (not below a limit of at most 100, such as the 0.001 of the source),
  and \<open>i\<close> is 1: so with \<open>max_iterations\<close> at least 2 the first iteration raises
  nothing and sets no exit, and the loop enters a second iteration.
\<close>

theorem at_least_two_iterations:
  assumes "2 \<le> max_iterations cfg" and "change_pct_limit cfg \<le> 100"
  shows "(\<exists>s1. iteration cfg cl mp p_count k (initial_state t0 cs) = Inr (s1, None))
         \<and> (\<exists>r. main_loop cfg cl mp p_count k (initial_state t0 cs) = Some r
                 \<and> 2 \<le> iterations_done r)"
proof -
  have ne: "max_iterations cfg \<noteq> 1" using assms(1) by simp
  obtain s1 where s1: "iteration cfg cl mp p_count k (initial_state t0 cs) = Inr (s1, None)"
    and it: "iter s1 = 1"
    using iteration_first [of "initial_state t0 cs" cfg cl mp p_count k] assms(2) ne
    by (auto simp: initial_state_def)
  have "iter s1 < max_iterations cfg" using it assms(1) by simp
  from main_loop_halts [OF this] obtain r where
    r: "main_loop cfg cl mp p_count k s1 = Some r" "iter s1 < iterations_done r" by blast
  have "main_loop cfg cl mp p_count k (initial_state t0 cs) = Some r"
    using s1 r(1) by (subst main_loop.simps) simp
  with r(2) it s1 show ?thesis by auto
qed

theorem at_least_two_iterations_witness:
  "2 \<le> max_iterations default_config \<and> change_pct_limit default_config \<le> 100
   \<and> (\<exists>s1. iteration default_config (closestID l2norm_1d) meanPosition_1d 3 2
               (initial_state [(1, 0, Some 0), (2, 10, Some 0), (3, 11, Some 0)]
                              [(Some 1, 0), (Some 2, 11)]) = Inr (s1, None))
   \<and> (\<exists>r. main_loop default_config (closestID l2norm_1d) meanPosition_1d 3 2
               (initial_state [(1, 0, Some 0), (2, 10, Some 0), (3, 11, Some 0)]
                              [(Some 1, 0), (Some 2, 11)]) = Some r
           \<and> 2 \<le> iterations_done r)"
proof -
  have h1: "2 \<le> max_iterations default_config" by (simp add: default_config_def)
  have h2: "change_pct_limit default_config \<le> 100" by (simp add: default_config_def)
  from at_least_two_iterations [OF h1 h2] show ?thesis
    using h1 h2 by blast
qed

section \<open>The stabilisation exit\<close>





section \<open>Validation\<close>

lemma split_dot_no_dot: "CHR ''.'' \<notin> set xs \<Longrightarrow> split_dot xs = [xs]"
  by (induction xs) auto

lemma split_dot_two: "split_dot xs = [a, b] \<Longrightarrow> CHR ''.'' \<in> set xs"
  using split_dot_no_dot [of xs] by auto

lemma validate_rejects:
  assumes "k \<le> 0 \<or> (split_dot input_table = [sch, tbl]
             \<and> int (length (relation_rows env (quote_ident sch @ ''.'' @ quote_ident tbl))) \<le> k)"
  shows "\<exists>e. validate env input_table k goodness run_id output_schema = Inl (PlpyError e)"
proof (cases "k \<le> 0")
  case True
  then show ?thesis by (simp add: validate_def)
next
  case False
  with assms have sp: "split_dot input_table = [sch, tbl]"
    and le: "int (length (relation_rows env (quote_ident sch @ ''.'' @ quote_ident tbl))) \<le> k"
    by auto
  from sp have "CHR ''.'' \<in> set input_table" by (rule split_dot_two)
  with False sp le show ?thesis
    by (simp add: validate_def Let_def)
qed

text \<open>
  C8. A call with \<open>k \<le> 0\<close>, or whose input relation (named \<open>schema.table\<close>) has
  at most \<open>k\<close> rows, which includes the empty relation, ends in a \<open>plpy.error\<close>
  raised by the validation block: the error is the one validation computes (it reads no
  random number and no output table), and the database is the one the call started with.
\<close>

theorem validation_fails_fast:
  assumes "k \<le> 0 \<or> (split_dot input_table = [sch, tbl]
             \<and> int (length (relation_rows env (quote_ident sch @ ''.'' @ quote_ident tbl))) \<le> k)"
  shows "\<exists>e. validate env input_table k goodness run_id output_schema = Inl (PlpyError e)
             \<and> kmeans_run cfg env rnd l2norm cl mp db input_table k goodness run_id output_schema
                 = Some (Inl (PlpyError e, db))"
  using validate_rejects [OF assms, of goodness run_id output_schema]
  by (auto simp: kmeans_run_def)

theorem validation_fails_fast_witness:
  "kmeans_run default_config (table_env [(1, 0), (2, 5)]) (\<lambda>n. 1 / 32) l2norm_1d
     (closestID l2norm_1d) meanPosition_1d Map.empty ''madlib.kmeans_input'' 2 1 ''run1'' ''madlib''
   = Some (Inl (PlpyError TooFewPoints, Map.empty))"
proof -
  have h: "(2::int) \<le> 0 \<or> (split_dot ''madlib.kmeans_input'' = [''madlib'', ''kmeans_input'']
      \<and> int (length (relation_rows (table_env [(1, 0), (2, 5::real)])
               (quote_ident ''madlib'' @ ''.'' @ quote_ident ''kmeans_input''))) \<le> 2)"
    by (simp add: table_env_def)
  have v: "validate (table_env [(1, 0), (2, 5::real)]) ''madlib.kmeans_input'' 2 1 ''run1'' ''madlib''
           = Inl (PlpyError TooFewPoints)"
    by (simp add: validate_def table_env_def Let_def)
  from validation_fails_fast [OF h, of 1 "''run1''" "''madlib''"] v show ?thesis
    by auto
qed

section \<open>Counting rows by centroid\<close>

lemma filter_eq_distinct: "distinct xs \<Longrightarrow> filter (\<lambda>y. c = y) xs = (if c \<in> set xs then [c] else [])"
  by (induction xs) auto

lemma concat_map_if: "concat (map (\<lambda>c. if P c then [h c] else []) xs) = map h (filter P xs)"
  by (induction xs) auto

lemma joined_counts_common:
  "joined_counts t1 t2 = map (\<lambda>c. (count_cid t1 c, count_cid t2 c)) (common_cids t1 t2)"
proof -
  have d: "distinct (group_cids t2)" by (simp add: group_cids_def)
  have inner: "map (\<lambda>b. (n, fst b)) (filter (\<lambda>b. c \<noteq> None \<and> c = snd b) (cid_counts t2))
      = (if c \<noteq> None \<and> c \<in> set (group_cids t2) then [(n, count_cid t2 c)] else [])" for n c
  proof (cases "c = None")
    case True
    then show ?thesis by simp
  next
    case False
    then show ?thesis
      using filter_eq_distinct [OF d, of c]
      by (simp add: cid_counts_def filter_map o_def count_cid_def)
  qed
  have "joined_counts t1 t2
      = concat (map (\<lambda>c. map (\<lambda>b. (count_cid t1 c, fst b))
                              (filter (\<lambda>b. c \<noteq> None \<and> c = snd b) (cid_counts t2)))
                    (group_cids t1))"
    by (simp add: joined_counts_def cid_counts_def [of t1] o_def count_cid_def)
  also have "\<dots> = concat (map (\<lambda>c. if c \<noteq> None \<and> c \<in> set (group_cids t2)
                                     then [(count_cid t1 c, count_cid t2 c)] else [])
                            (group_cids t1))"
    by (simp only: inner)
  also have "\<dots> = map (\<lambda>c. (count_cid t1 c, count_cid t2 c)) (common_cids t1 t2)"
    unfolding common_cids_def by (rule concat_map_if)
  finally show ?thesis .
qed

lemma sum_counts_cover:
  assumes "finite A" "f ` set t \<subseteq> A"
  shows "(\<Sum>c\<in>A. length (filter (\<lambda>r. f r = c) t)) = length t"
  using assms(2)
proof (induction t)
  case Nil
  then show ?case by simp
next
  case (Cons x t)
  have "(\<Sum>c\<in>A. length (filter (\<lambda>r. f r = c) (x # t)))
      = (\<Sum>c\<in>A. (if f x = c then 1 else 0) + length (filter (\<lambda>r. f r = c) t))"
    by (rule sum.cong) auto
  also have "\<dots> = (\<Sum>c\<in>A. if f x = c then 1 else 0) + (\<Sum>c\<in>A. length (filter (\<lambda>r. f r = c) t))"
    by (simp add: sum.distrib)
  also have "(\<Sum>c\<in>A. if f x = c then 1 else (0::nat)) = 1"
    using Cons.prems assms(1) by simp
  finally show ?case using Cons by simp
qed

lemma sum_count_cid: "(\<Sum>c\<leftarrow>group_cids t. count_cid t c) = int (length t)"
proof -
  have "(\<Sum>c\<leftarrow>group_cids t. count_cid t c) = (\<Sum>c\<in>set (group_cids t). count_cid t c)"
    by (simp add: sum_list_distinct_conv_sum_set group_cids_def)
  also have "\<dots> = int (\<Sum>c\<in>set (group_cids t). length (filter (\<lambda>r. cid_of r = c) t))"
    by (simp add: count_cid_def group_rows_def)
  also have "\<dots> = int (length t)"
    by (subst sum_counts_cover) (auto simp: group_cids_def)
  finally show ?thesis .
qed

lemma sum_list_filter_le:
  assumes "\<And>x. x \<in> set xs \<Longrightarrow> 0 \<le> f x"
  shows "sum_list (map f (filter P xs)) \<le> (sum_list (map f xs) :: int)"
  using assms by (induction xs) (auto simp: add_increasing)

lemma common_subset2: "set (common_cids t1 t2) \<subseteq> set (group_cids t2)"
  by (auto simp: common_cids_def)

lemma change_bound:
  "(\<Sum>c\<leftarrow>common_cids t1 t2. \<bar>count_cid t1 c - count_cid t2 c\<bar>) \<le> int (length t1) + int (length t2)"
proof -
  have nn: "0 \<le> count_cid t c" for t :: "'a assigned list" and c by (simp add: count_cid_def)
  have "(\<Sum>c\<leftarrow>common_cids t1 t2. \<bar>count_cid t1 c - count_cid t2 c\<bar>)
      \<le> (\<Sum>c\<leftarrow>common_cids t1 t2. count_cid t1 c + count_cid t2 c)"
    by (rule sum_list_mono) (use nn in \<open>auto simp: abs_le_iff intro: add_increasing add_increasing2\<close>)
  also have "\<dots> = (\<Sum>c\<leftarrow>common_cids t1 t2. count_cid t1 c) + (\<Sum>c\<leftarrow>common_cids t1 t2. count_cid t2 c)"
    by (simp add: sum_list_addf)
  also have "(\<Sum>c\<leftarrow>common_cids t1 t2. count_cid t1 c) \<le> (\<Sum>c\<leftarrow>group_cids t1. count_cid t1 c)"
    unfolding common_cids_def by (rule sum_list_filter_le) (simp add: nn)
  also have "(\<Sum>c\<leftarrow>common_cids t1 t2. count_cid t2 c) = (\<Sum>c\<in>set (common_cids t1 t2). count_cid t2 c)"
    by (simp add: sum_list_distinct_conv_sum_set common_cids_def group_cids_def)
  also have "\<dots> \<le> (\<Sum>c\<in>set (group_cids t2). count_cid t2 c)"
    by (rule sum_mono2) (use common_subset2 nn in auto)
  also have "\<dots> = (\<Sum>c\<leftarrow>group_cids t2. count_cid t2 c)"
    by (simp add: sum_list_distinct_conv_sum_set group_cids_def)
  finally show ?thesis by (simp add: sum_count_cid)
qed

section \<open>What an iteration records\<close>

lemma change_sum_common:
  "change_sum t1 t2 = Some v \<Longrightarrow>
   v = (\<Sum>c\<leftarrow>common_cids t1 t2. \<bar>count_cid t1 c - count_cid t2 c\<bar>)"
  by (auto simp: change_sum_def joined_counts_common o_def split: list.splits)

lemma iteration_change:
  assumes "iteration cfg cl mp p_count k s = Inr (s', r)"
  shows "(iter s = 0 \<longrightarrow> change_pct s' = change_pct s) \<and>
         (0 < iter s \<longrightarrow> change_pct s' = change_pct s @
            [real_of_int (\<Sum>c\<leftarrow>common_cids (temp_table s') (temp_table s).
                             \<bar>count_cid (temp_table s') c - count_cid (temp_table s) c\<bar>)
             / real_of_int p_count])"
  using assms
  by (auto simp: iteration_def Let_def track_change_def
           split: sum.splits if_splits option.splits dest!: change_sum_common)

lemma iteration_table:
  assumes "iteration cfg cl mp p_count k s = Inr (s', r)"
  shows "temp_table s' = assign_closest cl (array_of_centroids k (out_centroids s)) (temp_table s)"
    and "out_centroids s' = refresh_centroids mp (temp_table s')"
    and "centroid_array s' = array_of_centroids k (out_centroids s)"
  using assms by (auto simp: iteration_def Let_def split: sum.splits)

lemma length_assign [simp]: "length (assign_closest cl arr t) = length t"
  by (simp add: assign_closest_def)


lemma iteration_nonzero:
  assumes "iteration cfg cl mp p_count k s = Inr (s', r)" "0 < iter s"
  shows "p_count \<noteq> 0"
  using assms
  by (auto simp: iteration_def Let_def track_change_def split: sum.splits if_splits option.splits)

lemma fraction_range:
  assumes "0 < p" "int n1 \<le> p" "int n2 \<le> p" "0 \<le> v" "v \<le> int n1 + int n2"
  shows "0 \<le> real_of_int v / real_of_int p \<and> real_of_int v / real_of_int p \<le> 2"
proof -
  have "real_of_int v \<le> 2 * real_of_int p" using assms by linarith
  then show ?thesis using assms(1,4) by (simp add: divide_le_eq)
qed

lemma iteration_inv:
  assumes it: "iteration cfg cl mp p k s = Inr (s', r)"
    and len: "int (length (temp_table s)) \<le> p"
    and ok: "list_all (\<lambda>x. 0 \<le> x \<and> x \<le> 2) (tl (change_pct s))"
    and ne: "change_pct s \<noteq> []"
  shows "int (length (temp_table s')) \<le> p \<and> list_all (\<lambda>x. 0 \<le> x \<and> x \<le> 2) (tl (change_pct s'))
         \<and> change_pct s' \<noteq> [] \<and> hd (change_pct s') = hd (change_pct s)"
proof -
  have l': "length (temp_table s') = length (temp_table s)"
    using iteration_table(1) [OF it] by simp
  show ?thesis
  proof (cases "iter s = 0")
    case True
    then have "change_pct s' = change_pct s" using iteration_change [OF it] by simp
    then show ?thesis using len ok ne l' by simp
  next
    case False
    define v where "v = (\<Sum>c\<leftarrow>common_cids (temp_table s') (temp_table s).
                             \<bar>count_cid (temp_table s') c - count_cid (temp_table s) c\<bar>)"
    have cp: "change_pct s' = change_pct s @ [real_of_int v / real_of_int p]"
      using iteration_change [OF it] False by (simp add: v_def)
    have "p \<noteq> 0" using iteration_nonzero [OF it] False by simp
    then have pos: "0 < p" using len by linarith
    have v0: "0 \<le> v" unfolding v_def by (rule sum_list_nonneg) auto
    have vb: "v \<le> int (length (temp_table s')) + int (length (temp_table s))"
      unfolding v_def by (rule change_bound)
    have "0 \<le> real_of_int v / real_of_int p \<and> real_of_int v / real_of_int p \<le> 2"
      using fraction_range [OF pos _ len v0 vb] len l' by simp
    then show ?thesis using cp len ok ne l' by (cases "change_pct s") auto
  qed
qed

lemma main_loop_inv:
  assumes run: "main_loop cfg cl mp p k s = Some y"
  shows "int (length (temp_table s)) \<le> p \<longrightarrow> list_all (\<lambda>x. 0 \<le> x \<and> x \<le> 2) (tl (change_pct s))
         \<longrightarrow> change_pct s \<noteq> [] \<longrightarrow>
         (case y of Inl e \<Rightarrow> True
          | Inr x \<Rightarrow> list_all (\<lambda>x. 0 \<le> x \<and> x \<le> 2) (tl (change_pct (fst x)))
                     \<and> change_pct (fst x) \<noteq> [] \<and> hd (change_pct (fst x)) = hd (change_pct s))"
proof (rule main_loop.raw_induct
    [where P = "\<lambda>cfg cl mp p k s y.
         int (length (temp_table s)) \<le> p \<longrightarrow> list_all (\<lambda>x. 0 \<le> x \<and> x \<le> 2) (tl (change_pct s))
         \<longrightarrow> change_pct s \<noteq> [] \<longrightarrow>
         (case y of Inl e \<Rightarrow> True
          | Inr x \<Rightarrow> list_all (\<lambda>x. 0 \<le> x \<and> x \<le> 2) (tl (change_pct (fst x)))
                     \<and> change_pct (fst x) \<noteq> [] \<and> hd (change_pct (fst x)) = hd (change_pct s))",
     OF _ run])
  fix loop :: "config \<Rightarrow> ('a \<Rightarrow> 'a option list \<Rightarrow> int option) \<Rightarrow> ('a list \<Rightarrow> 'a) \<Rightarrow> int \<Rightarrow> int \<Rightarrow>
       'a loop_state \<Rightarrow> ((error \<times> 'a loop_state) + ('a loop_state \<times> exit_reason)) option"
    and cfg cl mp p k s y
  assume IH: "\<And>cfg cl mp p k s y. loop cfg cl mp p k s = Some y \<Longrightarrow>
         int (length (temp_table s)) \<le> p \<longrightarrow> list_all (\<lambda>x. 0 \<le> x \<and> x \<le> 2) (tl (change_pct s))
         \<longrightarrow> change_pct s \<noteq> [] \<longrightarrow>
         (case y of Inl e \<Rightarrow> True
          | Inr x \<Rightarrow> list_all (\<lambda>x. 0 \<le> x \<and> x \<le> 2) (tl (change_pct (fst x)))
                     \<and> change_pct (fst x) \<noteq> [] \<and> hd (change_pct (fst x)) = hd (change_pct s))"
    and body: "(case iteration cfg cl mp p k s of
                  Inl e \<Rightarrow> Some (Inl e)
                | Inr (s', None) \<Rightarrow> loop cfg cl mp p k s'
                | Inr (s', Some r) \<Rightarrow> Some (Inr (s', r))) = Some y"
  show "int (length (temp_table s)) \<le> p \<longrightarrow> list_all (\<lambda>x. 0 \<le> x \<and> x \<le> 2) (tl (change_pct s))
         \<longrightarrow> change_pct s \<noteq> [] \<longrightarrow>
         (case y of Inl e \<Rightarrow> True
          | Inr x \<Rightarrow> list_all (\<lambda>x. 0 \<le> x \<and> x \<le> 2) (tl (change_pct (fst x)))
                     \<and> change_pct (fst x) \<noteq> [] \<and> hd (change_pct (fst x)) = hd (change_pct s))"
  proof (intro impI)
    assume len: "int (length (temp_table s)) \<le> p"
      and ok: "list_all (\<lambda>x. 0 \<le> x \<and> x \<le> 2) (tl (change_pct s))"
      and ne: "change_pct s \<noteq> []"
    show "case y of Inl e \<Rightarrow> True
          | Inr x \<Rightarrow> list_all (\<lambda>x. 0 \<le> x \<and> x \<le> 2) (tl (change_pct (fst x)))
                     \<and> change_pct (fst x) \<noteq> [] \<and> hd (change_pct (fst x)) = hd (change_pct s)"
    proof (cases "iteration cfg cl mp p k s")
      case (Inl e)
      with body show ?thesis by auto
    next
      case (Inr x)
      obtain s' r where x: "x = (s', r)" by (cases x)
      note inv = iteration_inv [OF Inr [unfolded x] len ok ne]
      show ?thesis
      proof (cases r)
        case None
        with Inr x body have "loop cfg cl mp p k s' = Some y" by simp
        from IH [OF this] inv show ?thesis by (auto split: sum.splits)
      next
        case (Some a)
        with Inr x body have "y = Inr (s', a)" by simp
        with inv show ?thesis by simp
      qed
    qed
  qed
qed

lemma validate_p_count:
  "validate env tbl k g rid os = Inr v \<Longrightarrow> v_p_count v = int (length (v_input v)) \<and> 0 < k \<and> k < v_p_count v"
  by (auto simp: validate_def Let_def split: if_splits list.splits)

lemma length_order_by_random [simp]: "length (order_by_random rnd c rows) = length rows"
  by (simp add: order_by_random_def random_keys_def)

lemma working_set_length: "length (snd (working_set cfg rnd c nc input)) \<le> length input"
  by (simp add: working_set_def Let_def)

lemma kmeans_run_loop:
  assumes "kmeans_run cfg env rnd l2norm cl mp db tbl k g rid os = Some (Inr (res, db'))"
  shows "\<exists>v cs c nc s r. validate env tbl k g rid os = Inr v \<and> numCentroids k = Inr nc
           \<and> main_loop cfg cl mp (v_p_count v) k
                (initial_state (snd (working_set cfg rnd c nc (v_input v))) cs) = Some (Inr (s, r))
           \<and> res = finish l2norm cl g (fst (working_set cfg rnd c nc (v_input v))) (v_input v) s r"
  using assms
  by (auto simp: kmeans_run_def Let_def initial_state_def
           split: sum.splits prod.splits if_splits option.splits)


end
